theory Spec2Isabelle
  imports Main
begin

section \<open>Python strings and exceptions\<close>

text \<open>
  A Python \<open>str\<close> is modelled as a \<open>string\<close>: a list of code points below 256.
  Within that range \<open>\d\<close> of the \<open>re\<close> module matches exactly the ASCII digits and
  \<open>str.strip()\<close> removes the code points 9-13, 28-32, 133 and 160.
  An exception raised by the source is a value \<open>Inl e\<close> of a sum type.
\<close>

datatype py_error =
    ValueError string
  | IllegalMonthError nat
  | AttributeError
  | TypeError
  | YAMLError

definition is_digit :: "char \<Rightarrow> bool" where
  "is_digit c = (c \<in> set ''0123456789'')"

definition is_space :: "char \<Rightarrow> bool" where
  "is_space c = (let n = (of_char c :: nat) in
     (9 \<le> n \<and> n \<le> 13) \<or> (28 \<le> n \<and> n \<le> 32) \<or> n = 133 \<or> n = 160)"

definition newline :: char where
  "newline = CHR 0x0A"

definition py_lstrip :: "(char \<Rightarrow> bool) \<Rightarrow> string \<Rightarrow> string" where
  "py_lstrip p s = dropWhile p s"

definition py_rstrip :: "(char \<Rightarrow> bool) \<Rightarrow> string \<Rightarrow> string" where
  "py_rstrip p s = rev (dropWhile p (rev s))"

definition py_strip :: "(char \<Rightarrow> bool) \<Rightarrow> string \<Rightarrow> string" where
  "py_strip p s = py_rstrip p (py_lstrip p s)"

definition startswith :: "string \<Rightarrow> string \<Rightarrow> bool" where
  "startswith s pre = (take (length pre) s = pre)"

definition endswith :: "string \<Rightarrow> string \<Rightarrow> bool" where
  "endswith s suf = (length suf \<le> length s \<and> drop (length s - length suf) s = suf)"

text \<open>\<open>s.split(sep)\<close> for a one-character separator: never an empty list.\<close>

fun py_split :: "char \<Rightarrow> string \<Rightarrow> string list" where
  "py_split sep [] = [[]]"
| "py_split sep (c # cs) =
     (if c = sep then [] # py_split sep cs
      else (case py_split sep cs of [] \<Rightarrow> [[c]] | p # ps \<Rightarrow> (c # p) # ps))"

text \<open>
  \<open>$\<close> of the \<open>re\<close> module (without \<open>re.MULTILINE\<close>) matches at the end of the
  string and also just before a newline that ends the string.
\<close>

definition re_dollar :: "(string \<Rightarrow> bool) \<Rightarrow> string \<Rightarrow> bool" where
  "re_dollar p s = (p s \<or> (s \<noteq> [] \<and> last s = newline \<and> p (butlast s)))"

definition digit_val :: "char \<Rightarrow> nat" where
  "digit_val c = of_char c - 48"

text \<open>\<open>int(s)\<close> on a string of digits, surrounding whitespace ignored.\<close>

definition py_int :: "string \<Rightarrow> nat" where
  "py_int s = foldl (\<lambda>n c. 10 * n + digit_val c) 0 (py_strip is_space s)"

definition digit_char :: "nat \<Rightarrow> char" where
  "digit_char n = char_of (48 + n)"

fun show_nat :: "nat \<Rightarrow> string" where
  "show_nat n = (if n < 10 then [digit_char n]
                 else show_nat (n div 10) @ [digit_char (n mod 10)])"

declare show_nat.simps [simp del]

text \<open>The format \<open>{n:02d}\<close>.\<close>

definition fmt02d :: "nat \<Rightarrow> string" where
  "fmt02d n = (if n < 10 then CHR ''0'' # show_nat n else show_nat n)"

section \<open>The date normalizer (edtf\_parser.py)\<close>

text \<open>The three shapes \<open>^\d{4}$\<close>, \<open>^\d{4}-\d{2}$\<close> and \<open>^\d{4}-\d{2}-\d{2}$\<close>,
  first without the \<open>$\<close> rule.\<close>

definition digits_of :: "(char \<Rightarrow> bool) \<Rightarrow> nat \<Rightarrow> string \<Rightarrow> bool" where
  "digits_of p n s = (length s = n \<and> list_all p s)"

definition digits :: "nat \<Rightarrow> string \<Rightarrow> bool" where
  "digits n s = (length s = n \<and> list_all is_digit s)"

definition shape_year :: "string \<Rightarrow> bool" where
  "shape_year s = digits 4 s"

definition shape_year_month :: "string \<Rightarrow> bool" where
  "shape_year_month s =
     (length s = 7 \<and> digits 4 (take 4 s) \<and> s ! 4 = CHR ''-'' \<and> digits 2 (drop 5 s))"

definition shape_day :: "string \<Rightarrow> bool" where
  "shape_day s =
     (length s = 10 \<and> digits 4 (take 4 s) \<and> s ! 4 = CHR ''-'' \<and> digits 2 (take 2 (drop 5 s))
      \<and> s ! 7 = CHR ''-'' \<and> digits 2 (drop 8 s))"

definition match_year :: "string \<Rightarrow> bool" where
  "match_year = re_dollar shape_year"

definition match_year_month :: "string \<Rightarrow> bool" where
  "match_year_month = re_dollar shape_year_month"

definition match_day :: "string \<Rightarrow> bool" where
  "match_day = re_dollar shape_day"

text \<open>\<open>calendar.isleap\<close>, \<open>calendar.mdays\<close> and the second component of
  \<open>calendar.monthrange\<close>, which raises on a month outside 1..12.\<close>

definition isleap :: "nat \<Rightarrow> bool" where
  "isleap y = (y mod 4 = 0 \<and> (y mod 100 \<noteq> 0 \<or> y mod 400 = 0))"

definition mdays :: "nat list" where
  "mdays = [0, 31, 28, 31, 30, 31, 30, 31, 31, 30, 31, 30, 31]"

definition monthrange_ndays :: "nat \<Rightarrow> nat \<Rightarrow> py_error + nat" where
  "monthrange_ndays year month =
     (if \<not> (1 \<le> month \<and> month \<le> 12) then Inl (IllegalMonthError month)
      else Inr (mdays ! month + (if month = 2 \<and> isleap year then 1 else 0)))"

definition is_marker :: "char \<Rightarrow> bool" where
  "is_marker c = (c = CHR ''~'' \<or> c = CHR ''?'')"

text \<open>\<open>EDTFParser._normalize_single_date(date_str, start)\<close>.\<close>

definition normalize_single_date :: "string \<Rightarrow> bool \<Rightarrow> py_error + string option" where
  "normalize_single_date date_str0 start =
     (if date_str0 = [] then Inr None
      else
        let date_str = py_rstrip is_marker date_str0 in
        if match_year date_str then
          Inr (Some (if start then date_str @ ''-01-01'' else date_str @ ''-12-31''))
        else if match_year_month date_str then
          (case py_split CHR ''-'' date_str of
             [year, month] \<Rightarrow>
               if start then Inr (Some (date_str @ ''-01''))
               else (case monthrange_ndays (py_int year) (py_int month) of
                       Inl e \<Rightarrow> Inl e
                     | Inr last_day \<Rightarrow> Inr (Some (date_str @ ''-'' @ fmt02d last_day)))
           | _ \<Rightarrow> Inl (ValueError ''unpack''))
        else if match_day date_str then Inr (Some date_str)
        else Inr None)"

type_synonym date_triple = "string option \<times> string option \<times> string"

text \<open>\<open>EDTFParser.parse(edtf_string)\<close>. The calls for the two open-ended forms and for
  the closed interval pass no \<open>start\<close> argument, so its default \<open>True\<close> applies.\<close>

definition parse :: "string \<Rightarrow> py_error + date_triple" where
  "parse edtf_string =
     (if edtf_string = [] \<or> edtf_string = ''../..'' then Inr (None, None, ''unknown'')
      else
        let edtf = py_strip is_space edtf_string in
        if startswith edtf ''../'' then
          (case normalize_single_date (drop 3 edtf) True of
             Inl e \<Rightarrow> Inl e
           | Inr date_end \<Rightarrow> Inr (None, date_end, ''before''))
        else if endswith edtf ''/..'' then
          (case normalize_single_date (take (length edtf - 3) edtf) True of
             Inl e \<Rightarrow> Inl e
           | Inr date_start \<Rightarrow> Inr (date_start, None, ''after''))
        else if CHR ''/'' \<in> set edtf then
          (let parts = py_split CHR ''/'' edtf in
           case normalize_single_date (parts ! 0) True of
             Inl e \<Rightarrow> Inl e
           | Inr date_start \<Rightarrow>
               (case normalize_single_date (parts ! 1) True of
                  Inl e \<Rightarrow> Inl e
                | Inr date_end \<Rightarrow> Inr (date_start, date_end, ''interval'')))
        else if endswith edtf ''~'' then
          (let base = butlast edtf in
           case normalize_single_date base True of
             Inl e \<Rightarrow> Inl e
           | Inr date_start \<Rightarrow>
               (case normalize_single_date base False of
                  Inl e \<Rightarrow> Inl e
                | Inr date_end \<Rightarrow> Inr (date_start, date_end, ''circa'')))
        else if endswith edtf ''?'' then
          (let base = butlast edtf in
           case normalize_single_date base True of
             Inl e \<Rightarrow> Inl e
           | Inr date_start \<Rightarrow>
               (case normalize_single_date base False of
                  Inl e \<Rightarrow> Inl e
                | Inr date_end \<Rightarrow> Inr (date_start, date_end, ''uncertain'')))
        else
          (case normalize_single_date edtf True of
             Inl e \<Rightarrow> Inl e
           | Inr date_start \<Rightarrow>
               (case normalize_single_date edtf False of
                  Inl e \<Rightarrow> Inl e
                | Inr date_end \<Rightarrow>
                    Inr (date_start, date_end,
                         if match_day edtf then ''day''
                         else if match_year_month edtf then ''month''
                         else if match_year edtf then ''year''
                         else ''unknown''))))"


section \<open>The date derivation at commit time (master\_import.py)\<close>

record date_info =
  date_start :: "string option"
  date_end :: "string option"
  date_precision :: string
  date_edtf :: string





section \<open>The calendar, as the specification words it\<close>

text \<open>The last calendar day of a month, leap years included.\<close>

definition last_day_of_month :: "nat \<Rightarrow> nat \<Rightarrow> nat" where
  "last_day_of_month y m =
     (if m = 2 then (if y mod 4 = 0 \<and> (y mod 100 \<noteq> 0 \<or> y mod 400 = 0) then 29 else 28)
      else if m = 4 \<or> m = 6 \<or> m = 9 \<or> m = 11 then 30 else 31)"

section \<open>The warnings collector (wikilink\_extractor.py)\<close>

text \<open>The lists of \<open>WikilinkWarnings\<close> that the modelled functions append to.\<close>

record warnings =
  invalid_wikilinks :: "(string \<times> nat \<times> string \<times> string) list"
  auto_corrected_slashes :: "(string \<times> nat \<times> string) list"
  document_id_collisions :: "(string \<times> string \<times> string) list"
  parse_errors :: "(string \<times> py_error) list"

definition new_warnings :: warnings where
  "new_warnings = \<lparr>invalid_wikilinks = [], auto_corrected_slashes = [],
     document_id_collisions = [], parse_errors = []\<rparr>"

definition log_invalid :: "string \<Rightarrow> nat \<Rightarrow> string \<Rightarrow> string \<Rightarrow> warnings \<Rightarrow> warnings" where
  "log_invalid file line raw_link error w =
     w\<lparr>invalid_wikilinks := invalid_wikilinks w @ [(file, line, raw_link, error)]\<rparr>"

definition log_slash_correction :: "string \<Rightarrow> nat \<Rightarrow> string \<Rightarrow> warnings \<Rightarrow> warnings" where
  "log_slash_correction file line raw_link w =
     w\<lparr>auto_corrected_slashes := auto_corrected_slashes w @ [(file, line, raw_link)]\<rparr>"

definition log_document_id_collision :: "string \<Rightarrow> string \<Rightarrow> string \<Rightarrow> warnings \<Rightarrow> warnings" where
  "log_document_id_collision file_name original_path current_path w =
     w\<lparr>document_id_collisions :=
         document_id_collisions w @ [(file_name, original_path, current_path)]\<rparr>"

definition log_parse_error :: "string \<Rightarrow> py_error \<Rightarrow> warnings \<Rightarrow> warnings" where
  "log_parse_error file error w = w\<lparr>parse_errors := parse_errors w @ [(file, error)]\<rparr>"

text \<open>\<open>if warnings and file_path: warnings.log(file_path, ...)\<close>: the collector is
  optional, and so is the path, which must not be the empty string.\<close>

fun with_log :: "warnings option \<Rightarrow> string option \<Rightarrow> (string \<Rightarrow> warnings \<Rightarrow> warnings)
    \<Rightarrow> warnings option" where
  "with_log (Some w) (Some fp) f = (if fp = [] then Some w else Some (f fp w))"
| "with_log w _ f = w"

section \<open>The reference extractor (wikilink\_extractor.py)\<close>

definition is_hexdash :: "char \<Rightarrow> bool" where
  "is_hexdash c = (c \<in> set ''0123456789abcdefABCDEF-'')"

definition entity_types :: "string list" where
  "entity_types = [''person'', ''org'', ''gpe'', ''place'']"

text \<open>\<open>ID_PATTERN\<close>, \<open>^/id/(person|org|gpe|place)/[0-9a-fA-F-]{36}$\<close>: first the shape,
  then the pattern with the rule of \<open>$\<close>.\<close>

definition shape_id :: "string \<Rightarrow> bool" where
  "shape_id s = list_ex (\<lambda>t. startswith s (''/id/'' @ t @ ''/'')
       \<and> digits_of is_hexdash 36 (drop (length t + 5) s)) entity_types"

definition id_pattern_match :: "string \<Rightarrow> bool" where
  "id_pattern_match = re_dollar shape_id"

definition is_bracket :: "char \<Rightarrow> bool" where
  "is_bracket c = (c = CHR ''['' \<or> c = CHR '']'')"

text \<open>\<open>WikilinkExtractor.clean_id\<close>: the result or the \<open>ValueError\<close>, and the collector.\<close>

definition clean_id :: "string \<Rightarrow> warnings option \<Rightarrow> string option \<Rightarrow> nat option
    \<Rightarrow> (py_error + string) \<times> warnings option" where
  "clean_id raw_link warnings file_path line_num =
     (let cleaned0 = py_strip is_bracket raw_link;
          cleaned1 = (if CHR ''|'' \<in> set cleaned0 then hd (py_split CHR ''|'' cleaned0)
                      else cleaned0);
          line = (case line_num of None \<Rightarrow> 0 | Some n \<Rightarrow> n);
          w1 = (if \<not> startswith cleaned1 ''/''
                then with_log warnings file_path (\<lambda>fp. log_slash_correction fp line raw_link)
                else warnings);
          cleaned = (if \<not> startswith cleaned1 ''/'' then CHR ''/'' # cleaned1 else cleaned1)
      in if \<not> id_pattern_match cleaned then
           (let error = ''Invalid ID format: '' @ cleaned
            in (Inl (ValueError error),
                with_log w1 file_path (\<lambda>fp. log_invalid fp line raw_link error)))
         else (Inr cleaned, w1))"

text \<open>
  \<open>WIKILINK_PATTERN\<close>,
  \<open>\[\[/?(id/(?:person|org|gpe|place)/[0-9a-fA-F-]{36})(?:\|[^\]]+)?\]\]\<close>, tried at
  the head of a string: group 1 and the length of the match. No choice of the pattern
  has a second way to succeed (the optional slash cannot be the \<open>i\<close> of \<open>id\<close>, the
  types exclude each other before \<open>/\<close>, the alias stops at the first \<open>]\<close>), so the
  backtracking search is this function.
\<close>

definition wikilink_match_here :: "string \<Rightarrow> (string \<times> nat) option" where
  "wikilink_match_here s =
     (if \<not> startswith s ''[['' then None
      else
        let s1 = drop 2 s;
            slash = (if startswith s1 ''/'' then 1 else 0);
            s2 = drop slash s1
        in case find (\<lambda>t. startswith s2 (''id/'' @ t @ ''/'')) entity_types of
             None \<Rightarrow> None
           | Some t \<Rightarrow>
               let k = length t + 4;
                   group1 = take (k + 36) s2;
                   rest = drop (k + 36) s2
               in if \<not> digits_of is_hexdash 36 (drop k group1) then None
                  else if startswith rest '']]'' then Some (group1, 2 + slash + k + 36 + 2)
                  else if startswith rest ''|'' then
                    (let alias = takeWhile (\<lambda>c. c \<noteq> CHR '']'') (drop 1 rest)
                     in if alias \<noteq> [] \<and> startswith (drop (1 + length alias) rest) '']]''
                        then Some (group1, 2 + slash + k + 36 + 1 + length alias + 2)
                        else None)
                  else None)"

text \<open>\<open>WIKILINK_PATTERN.finditer(text)\<close>: group 1 and the start of each match, from
  left to right, the search resuming where the last match ended.\<close>

fun finditer :: "string \<Rightarrow> nat \<Rightarrow> (string \<times> nat) list" where
  "finditer [] pos = []"
| "finditer (c # cs) pos =
     (case wikilink_match_here (c # cs) of
        None \<Rightarrow> finditer cs (pos + 1)
      | Some (g, n) \<Rightarrow> (g, pos) # finditer (drop (n - 1) cs) (pos + n))"

text \<open>The loop of \<open>extract_all_wikilinks\<close>; \<open>clean_id\<close> raises nothing but
  \<open>ValueError\<close>, which the loop swallows.\<close>

fun extract_loop :: "string \<Rightarrow> string option \<Rightarrow> (string \<times> nat) list
    \<Rightarrow> string set \<times> warnings option \<Rightarrow> string set \<times> warnings option" where
  "extract_loop text file_path [] st = st"
| "extract_loop text file_path ((raw_id, start) # ms) (ids, w) =
     (let line_num = count_list (take start text) newline + 1
      in case clean_id raw_id w file_path (Some line_num) of
           (Inr cleaned, w') \<Rightarrow> extract_loop text file_path ms (insert cleaned ids, w')
         | (Inl e, w') \<Rightarrow> extract_loop text file_path ms (ids, w'))"

definition extract_all_wikilinks :: "string \<Rightarrow> warnings option \<Rightarrow> string option
    \<Rightarrow> string set \<times> warnings option" where
  "extract_all_wikilinks text warnings file_path =
     extract_loop text file_path (finditer text 0) ({}, warnings)"

text \<open>Values of a parsed YAML front matter (keys are strings).\<close>

datatype yaml =
    YNull
  | YBool bool
  | YInt int
  | YStr string
  | YList "yaml list"
  | YDict "(string \<times> yaml) list"

fun truthy :: "yaml \<Rightarrow> bool" where
  "truthy YNull = False"
| "truthy (YBool b) = b"
| "truthy (YInt n) = (n \<noteq> 0)"
| "truthy (YStr s) = (s \<noteq> [])"
| "truthy (YList xs) = (xs \<noteq> [])"
| "truthy (YDict kvs) = (kvs \<noteq> [])"

text \<open>\<open>d.get(k)\<close> on a dictionary.\<close>

definition yget :: "(string \<times> yaml) list \<Rightarrow> string \<Rightarrow> yaml" where
  "yget d k = (case map_of d k of None \<Rightarrow> YNull | Some v \<Rightarrow> v)"

text \<open>\<open>sub in s\<close> on strings.\<close>

definition contains :: "string \<Rightarrow> string \<Rightarrow> bool" where
  "contains s sub = list_ex (\<lambda>i. take (length sub) (drop i s) = sub) [0 ..< Suc (length s)]"

definition FRONTMATTER_BLACKLIST :: "string list" where
  "FRONTMATTER_BLACKLIST = [''quote'', ''source_quote'', ''note'', ''doc'', ''page'']"

text \<open>The two guards at the head of \<open>scan_value\<close> in \<open>extract_from_dict\<close>.\<close>

definition blacklisted :: "string list \<Rightarrow> string option \<Rightarrow> bool" where
  "blacklisted blacklist_fields parent_key =
     (case parent_key of
        None \<Rightarrow> False
      | Some pk \<Rightarrow> pk \<noteq> [] \<and>
          (pk \<in> set blacklist_fields
           \<or> (CHR ''.'' \<in> set pk \<and> list_ex (\<lambda>bl. contains pk bl) blacklist_fields)))"

definition new_key :: "string option \<Rightarrow> string \<Rightarrow> string" where
  "new_key parent_key k =
     (case parent_key of
        None \<Rightarrow> k
      | Some pk \<Rightarrow> if pk = [] then k else pk @ ''.'' @ k)"

fun scan_value :: "string list \<Rightarrow> string option \<Rightarrow> yaml \<Rightarrow> string option
      \<Rightarrow> string set \<times> warnings option \<Rightarrow> string set \<times> warnings option"
  and scan_items :: "string list \<Rightarrow> string option \<Rightarrow> (string \<times> yaml) list \<Rightarrow> string option
      \<Rightarrow> string set \<times> warnings option \<Rightarrow> string set \<times> warnings option"
  and scan_list :: "string list \<Rightarrow> string option \<Rightarrow> yaml list \<Rightarrow> string option
      \<Rightarrow> string set \<times> warnings option \<Rightarrow> string set \<times> warnings option"
  where
  "scan_value bl fp (YStr s) pk (ids, w) =
     (if blacklisted bl pk then (ids, w)
      else (case extract_all_wikilinks s w fp of (new, w') \<Rightarrow> (ids \<union> new, w')))"
| "scan_value bl fp (YDict kvs) pk st =
     (if blacklisted bl pk then st else scan_items bl fp kvs pk st)"
| "scan_value bl fp (YList xs) pk st =
     (if blacklisted bl pk then st else scan_list bl fp xs pk st)"
| "scan_value bl fp YNull pk st = st"
| "scan_value bl fp (YBool b) pk st = st"
| "scan_value bl fp (YInt n) pk st = st"
| "scan_items bl fp [] pk st = st"
| "scan_items bl fp ((k, v) # kvs) pk st =
     scan_items bl fp kvs pk (scan_value bl fp v (Some (new_key pk k)) st)"
| "scan_list bl fp [] pk st = st"
| "scan_list bl fp (x # xs) pk st = scan_list bl fp xs pk (scan_value bl fp x pk st)"

definition extract_from_dict :: "yaml \<Rightarrow> string list \<Rightarrow> warnings option \<Rightarrow> string option
    \<Rightarrow> string set \<times> warnings option" where
  "extract_from_dict data blacklist_fields warnings file_path =
     scan_value blacklist_fields file_path data None ({}, warnings)"

text \<open>\<open>WikilinkExtractor.categorize_links\<close>.\<close>

definition categorize_links :: "string set \<Rightarrow> string set \<Rightarrow> string \<Rightarrow> string set \<times> string set" where
  "categorize_links all_links specific_links entity_id =
     (let generic_refs = all_links - specific_links - {entity_id}
      in (specific_links, generic_refs))"


section \<open>The front-matter split (document\_parser.py, entity\_parser.py)\<close>

text \<open>\<open>s.split(sep, 2)\<close> for a non-empty separator, by way of the first occurrence.\<close>

fun split_once :: "string \<Rightarrow> string \<Rightarrow> (string \<times> string) option" where
  "split_once sep [] = None"
| "split_once sep (c # cs) =
     (if startswith (c # cs) sep then Some ([], drop (length sep) (c # cs))
      else (case split_once sep cs of None \<Rightarrow> None | Some (a, b) \<Rightarrow> Some (c # a, b)))"

definition split_max2 :: "string \<Rightarrow> string \<Rightarrow> string list" where
  "split_max2 sep s =
     (case split_once sep s of
        None \<Rightarrow> [s]
      | Some (a, r) \<Rightarrow>
          (case split_once sep r of
             None \<Rightarrow> [a, r]
           | Some (b, r2) \<Rightarrow> [a, b, r2]))"

definition is_newline :: "char \<Rightarrow> bool" where
  "is_newline c = (c = newline)"

text \<open>\<open>EntityParser._split_frontmatter_raw\<close>.\<close>

definition split_frontmatter_raw :: "string \<Rightarrow> string \<times> string" where
  "split_frontmatter_raw text =
     (if \<not> startswith text ''---'' then ([], text)
      else let parts = split_max2 ''---'' text
           in if length parts < 3 then ([], text)
              else (parts ! 1, py_lstrip is_newline (parts ! 2)))"

text \<open>\<open>DocumentParser._split_frontmatter\<close>. The loader \<open>yaml.safe_load\<close> is a parameter:
  it returns a value or raises. Only \<open>yaml.YAMLError\<close> is caught.\<close>

definition split_frontmatter :: "(string \<Rightarrow> py_error + yaml) \<Rightarrow> string
    \<Rightarrow> py_error + yaml \<times> string" where
  "split_frontmatter safe_load text =
     (if \<not> startswith text ''---'' then Inr (YDict [], text)
      else let parts = split_max2 ''---'' text
           in if length parts < 3 then Inr (YDict [], text)
              else (case safe_load (parts ! 1) of
                      Inl YAMLError \<Rightarrow> Inr (YDict [], text)
                    | Inl e \<Rightarrow> Inl e
                    | Inr v \<Rightarrow>
                        Inr (if truthy v then v else YDict [],
                             py_lstrip is_newline (parts ! 2))))"

text \<open>The first two statements of \<open>EntityParser._parse_entity_file\<close>: the split, then
  \<open>yaml.safe_load(frontmatter_text) if frontmatter_text else {}\<close>, outside any
  \<open>try\<close>.\<close>

definition entity_frontmatter :: "(string \<Rightarrow> py_error + yaml) \<Rightarrow> string
    \<Rightarrow> py_error + yaml \<times> string" where
  "entity_frontmatter safe_load text =
     (case split_frontmatter_raw text of
        (frontmatter_text, body) \<Rightarrow>
          if frontmatter_text = [] then Inr (YDict [], body)
          else (case safe_load frontmatter_text of
                  Inl e \<Rightarrow> Inl e
                | Inr v \<Rightarrow> Inr (v, body)))"

text \<open>A loader for the closed examples: on the block \<open>id: [\<close> (a flow sequence that is
  never closed) \<open>yaml.safe_load\<close> raises a \<open>YAMLError\<close>; every other block is taken to
  load as an empty document.\<close>

definition unclosed_flow :: string where
  "unclosed_flow = [newline] @ ''id: ['' @ [newline]"

definition sample_load :: "string \<Rightarrow> py_error + yaml" where
  "sample_load s = (if s = unclosed_flow then Inl YAMLError else Inr YNull)"

section \<open>Document ids (document\_parser.py, event\_parser.py, microaction\_parser.py)\<close>

text \<open>A file: \<open>str(file_path)\<close> and \<open>file_path.name\<close>. The digest
  \<open>hashlib.sha1(s.encode('utf-8')).hexdigest()\<close> is a parameter \<open>sha1\<close>.\<close>

record md_file =
  path :: string
  name :: string

type_synonym doc_id_index = "string \<rightharpoonup> nat \<times> string"

definition base_id :: "(string \<Rightarrow> string) \<Rightarrow> md_file \<Rightarrow> string" where
  "base_id sha1 f = ''/id/document/'' @ sha1 (name f)"

text \<open>\<open>DocumentParser._build_document_id\<close>, on the index \<open>self._doc_id_index\<close> (count and
  original path per base id) and the collector.\<close>

definition build_document_id :: "(string \<Rightarrow> string) \<Rightarrow> md_file \<Rightarrow> doc_id_index \<times> warnings
    \<Rightarrow> string \<times> doc_id_index \<times> warnings" where
  "build_document_id sha1 f st =
     (case st of (idx, w) \<Rightarrow>
        let b = base_id sha1 f in
        case idx b of
          Some (count, original_path) \<Rightarrow>
            let n = count + 1
            in (b @ ''::'' @ show_nat n,
                idx(b \<mapsto> (n, original_path)),
                log_document_id_collision (name f) original_path (path f) w)
        | None \<Rightarrow> (b, idx(b \<mapsto> (0, path f)), w))"

text \<open>The calls of \<open>_build_document_id\<close> in one run of \<open>parse_all\<close>, on the archive
  documents in the order in which the directory walk yields them.\<close>

fun build_ids :: "(string \<Rightarrow> string) \<Rightarrow> md_file list \<Rightarrow> doc_id_index \<times> warnings
    \<Rightarrow> string list \<times> doc_id_index \<times> warnings" where
  "build_ids sha1 [] st = ([], st)"
| "build_ids sha1 (f # fs) st =
     (case build_document_id sha1 f st of
        (i, st') \<Rightarrow> (case build_ids sha1 fs st' of (is, st'') \<Rightarrow> (i # is, st'')))"

text \<open>\<open>EventParser._build_document_id_from_path\<close> and
  \<open>MicroActionParser._build_document_id_from_path\<close>: the value of \<open>doc_id\<close> that every
  assertion of the file carries.\<close>

definition event_build_document_id_from_path :: "(string \<Rightarrow> string) \<Rightarrow> md_file \<Rightarrow> string" where
  "event_build_document_id_from_path sha1 f = (let h = sha1 (name f) in ''/id/document/'' @ h)"

definition micro_build_document_id_from_path :: "(string \<Rightarrow> string) \<Rightarrow> md_file \<Rightarrow> string" where
  "micro_build_document_id_from_path sha1 f = (let h = sha1 (name f) in ''/id/document/'' @ h)"

text \<open>Document ids as the specification words them: the hash of the file name, and
  from the second file of that hash on a numbered suffix and a logged collision.\<close>

definition expected_id :: "(string \<Rightarrow> string) \<Rightarrow> md_file list \<Rightarrow> md_file \<Rightarrow> string" where
  "expected_id sha1 earlier f =
     (let k = length (filter (\<lambda>g. base_id sha1 g = base_id sha1 f) earlier)
      in if k = 0 then base_id sha1 f else base_id sha1 f @ ''::'' @ show_nat k)"

definition expected_collision :: "(string \<Rightarrow> string) \<Rightarrow> md_file list \<Rightarrow> md_file
    \<Rightarrow> (string \<times> string \<times> string) list" where
  "expected_collision sha1 earlier f =
     (case find (\<lambda>g. base_id sha1 g = base_id sha1 f) earlier of
        None \<Rightarrow> []
      | Some g \<Rightarrow> [(name f, path g, path f)])"

section \<open>Auxiliary facts about strings\<close>

lemma digit_facts:
  assumes "is_digit c"
  shows "\<not> is_space c" "\<not> is_marker c" "c \<noteq> CHR ''/''" "c \<noteq> CHR ''.''" "c \<noteq> CHR ''-''"
    "c \<noteq> newline" "c \<noteq> CHR ''~''" "c \<noteq> CHR ''?''"
  using assms by (auto simp: is_digit_def is_space_def is_marker_def newline_def)

lemma monthrange_last_day:
  assumes "1 \<le> m" "m \<le> 12"
  shows "monthrange_ndays y m = Inr (last_day_of_month y m)"
proof -
  from assms have "m = 1 \<or> m = 2 \<or> m = 3 \<or> m = 4 \<or> m = 5 \<or> m = 6 \<or> m = 7 \<or> m = 8
      \<or> m = 9 \<or> m = 10 \<or> m = 11 \<or> m = 12" by arith
  then show ?thesis
    by (elim disjE) (simp_all add: monthrange_ndays_def last_day_of_month_def mdays_def isleap_def)
qed


















lemma digits4E:
  assumes "digits 4 y"
  obtains a b c d where "y = [a, b, c, d]" "is_digit a" "is_digit b" "is_digit c" "is_digit d"
proof -
  from assms have l: "length y = 4" and d: "list_all is_digit y" by (simp_all add: digits_def)
  from l obtain a b c d where "y = [a, b, c, d]"
    by (auto simp: length_Suc_conv numeral_eq_Suc)
  with d that show thesis by simp
qed

lemma digits2E:
  assumes "digits 2 m"
  obtains e f where "m = [e, f]" "is_digit e" "is_digit f"
proof -
  from assms have l: "length m = 2" and d: "list_all is_digit m" by (simp_all add: digits_def)
  from l obtain e f where "m = [e, f]"
    by (auto simp: length_Suc_conv numeral_eq_Suc)
  with d that show thesis by simp
qed

lemma parse_year:
  assumes "digits 4 y"
  shows "parse y = Inr (Some (y @ ''-01-01''), Some (y @ ''-12-31''), ''year'')"
proof -
  from assms obtain a b c d where y: "y = [a, b, c, d]"
    and dg: "is_digit a" "is_digit b" "is_digit c" "is_digit d" by (rule digits4E)
  note f = dg[THEN digit_facts(1)] dg[THEN digit_facts(2)] dg[THEN digit_facts(3)]
    dg[THEN digit_facts(4)] dg[THEN digit_facts(5)] dg[THEN digit_facts(6)]
    dg[THEN digit_facts(7)] dg[THEN digit_facts(8)]
  show ?thesis
    unfolding y using dg f
    by (simp add: parse_def normalize_single_date_def py_strip_def py_lstrip_def py_rstrip_def
        startswith_def endswith_def match_year_def match_year_month_def match_day_def
        re_dollar_def shape_year_def shape_year_month_def shape_day_def digits_def)
qed

lemma parse_year_month:
  assumes "digits 4 y" "digits 2 m" "1 \<le> py_int m" "py_int m \<le> 12"
  shows "parse (y @ ''-'' @ m) =
     Inr (Some (y @ ''-'' @ m @ ''-01''),
          Some (y @ ''-'' @ m @ ''-'' @ fmt02d (last_day_of_month (py_int y) (py_int m))),
          ''month'')"
proof -
  from assms(1) obtain a b c d where y: "y = [a, b, c, d]"
    and dg: "is_digit a" "is_digit b" "is_digit c" "is_digit d" by (rule digits4E)
  from assms(2) obtain e f where m: "m = [e, f]" and dm: "is_digit e" "is_digit f"
    by (rule digits2E)
  note dd = dg dm
  note f = dd[THEN digit_facts(1)] dd[THEN digit_facts(2)] dd[THEN digit_facts(3)]
    dd[THEN digit_facts(4)] dd[THEN digit_facts(5)] dd[THEN digit_facts(6)]
    dd[THEN digit_facts(7)] dd[THEN digit_facts(8)]
  have n: "normalize_single_date (y @ ''-'' @ m) False =
      Inr (Some (y @ ''-'' @ m @ ''-'' @ fmt02d (last_day_of_month (py_int y) (py_int m))))"
    using dd f monthrange_last_day[OF assms(3,4), of "py_int y"]
    unfolding y m
    by (simp add: normalize_single_date_def py_rstrip_def
        match_year_def match_year_month_def match_day_def
        re_dollar_def shape_year_def shape_year_month_def shape_day_def digits_def)
  have n1: "normalize_single_date (y @ ''-'' @ m) True = Inr (Some (y @ ''-'' @ m @ ''-01''))"
    using dd f unfolding y m
    by (simp add: normalize_single_date_def py_rstrip_def
        match_year_def match_year_month_def match_day_def
        re_dollar_def shape_year_def shape_year_month_def shape_day_def digits_def)
  have s: "py_strip is_space (y @ ''-'' @ m) = y @ ''-'' @ m"
    using f unfolding y m by (simp add: py_strip_def py_lstrip_def py_rstrip_def)
  have p: "parse (y @ ''-'' @ m) = (case normalize_single_date (y @ ''-'' @ m) True of
             Inl e \<Rightarrow> Inl e
           | Inr ds \<Rightarrow>
               (case normalize_single_date (y @ ''-'' @ m) False of
                  Inl e \<Rightarrow> Inl e
                | Inr de \<Rightarrow> Inr (ds, de, ''month'')))"
    unfolding parse_def s Let_def
    using dd f unfolding y m
    by (simp add: startswith_def endswith_def match_year_def match_year_month_def match_day_def
        re_dollar_def shape_year_def shape_year_month_def shape_day_def digits_def)
  show ?thesis unfolding p n n1 by simp
qed

section \<open>Full dates with markers\<close>















subsection \<open>Closed intervals of marked full dates\<close>



subsection \<open>Open intervals\<close>






subsection \<open>A full date with one marker\<close>




section \<open>The date normalizer: bare years and year-months\<close>

text \<open>
  C8. The normalizer maps a bare year \<open>y\<close> to (\<open>y\<close>-01-01, \<open>y\<close>-12-31, "year"), and a
  year-month \<open>y\<close>-\<open>m\<close> with a month between 1 and 12 to a span that starts on day 01 and
  ends on the last calendar day of that month, leap years included. In particular
  parse("1942") = (1942-01-01, 1942-12-31, "year"), parse("1944-02") ends on 1944-02-29
  and parse("1943-02") ends on 1943-02-28.
\<close>

theorem C8_parse_year_and_month_end:
  assumes "digits 4 y" and "digits 2 m" and "1 \<le> py_int m" and "py_int m \<le> 12"
  shows "parse y = Inr (Some (y @ ''-01-01''), Some (y @ ''-12-31''), ''year'')
    \<and> parse (y @ ''-'' @ m) =
        Inr (Some (y @ ''-'' @ m @ ''-01''),
             Some (y @ ''-'' @ m @ ''-'' @ fmt02d (last_day_of_month (py_int y) (py_int m))),
             ''month'')
    \<and> parse ''1942'' = Inr (Some ''1942-01-01'', Some ''1942-12-31'', ''year'')
    \<and> parse ''1944-02'' = Inr (Some ''1944-02-01'', Some ''1944-02-29'', ''month'')
    \<and> parse ''1943-02'' = Inr (Some ''1943-02-01'', Some ''1943-02-28'', ''month'')"
proof -
  have "parse ''1942'' = Inr (Some ''1942-01-01'', Some ''1942-12-31'', ''year'')"
    by code_simp
  moreover have "parse ''1944-02'' = Inr (Some ''1944-02-01'', Some ''1944-02-29'', ''month'')"
    by code_simp
  moreover have "parse ''1943-02'' = Inr (Some ''1943-02-01'', Some ''1943-02-28'', ''month'')"
    by code_simp
  ultimately show ?thesis
    using parse_year[OF assms(1)] parse_year_month[OF assms] by simp
qed

theorem C8_parse_year_and_month_end_witness:
  "digits 4 ''1900'' \<and> digits 2 ''02'' \<and> 1 \<le> py_int ''02'' \<and> py_int ''02'' \<le> 12
   \<and> parse ''1900'' = Inr (Some ''1900-01-01'', Some ''1900-12-31'', ''year'')
   \<and> parse ''1900-02'' = Inr (Some ''1900-02-01'', Some ''1900-02-28'', ''month'')"
proof -
  have h: "digits 4 ''1900''" "digits 2 ''02''" "1 \<le> py_int ''02''" "py_int ''02'' \<le> 12"
    by code_simp+
  have d: "fmt02d (last_day_of_month (py_int ''1900'') (py_int ''02'')) = ''28''"
    by code_simp
  from C8_parse_year_and_month_end[OF h] show ?thesis
    using h unfolding d by simp
qed

section \<open>The date normalizer: intervals and open starts\<close>

text \<open>
  C3. For a closed interval "A/B" and for an open start "../X" the end date is computed
  by the call \<open>_normalize_single_date(parts[1])\<close>, respectively
  \<open>_normalize_single_date(edtf[3:])\<close>, with the default \<open>start=True\<close>: a bare year at the
  end of an interval is mapped to January 1 and a year-month to day 01, although the
  same function called with \<open>start=False\<close> gives December 31 and the last day of the
  month.
\<close>

theorem C3_interval_end_normalized_as_start:
  "parse ''1942/1945'' = Inr (Some ''1942-01-01'', Some ''1945-01-01'', ''interval'')
   \<and> parse ''../1945'' = Inr (None, Some ''1945-01-01'', ''before'')
   \<and> parse ''1944-01/1944-02'' = Inr (Some ''1944-01-01'', Some ''1944-02-01'', ''interval'')
   \<and> normalize_single_date ''1945'' False = Inr (Some ''1945-12-31'')
   \<and> normalize_single_date ''1944-02'' False = Inr (Some ''1944-02-29'')"
  by code_simp

section \<open>Dates stored at commit time\<close>




section \<open>Facts about the reference extractor\<close>
















section \<open>Cleaning a reference and extracting all references\<close>



section \<open>Facts about document ids\<close>

lemma upt_shift: "map h [0..<Suc n] = h 0 # map (\<lambda>j. h (Suc j)) [0..<n]"
proof -
  have "[0..<Suc n] = 0 # map Suc [0..<n]" by (simp add: upt_conv_Cons map_Suc_upt del: upt_Suc)
  then show ?thesis by (simp add: comp_def del: upt_Suc)
qed

lemma find_append_first:
  "find P (xs @ [x]) = (case find P xs of Some y \<Rightarrow> Some y | None \<Rightarrow> if P x then Some x else None)"
  by (induction xs) auto

lemma find_filter_empty: "find P xs = None \<longleftrightarrow> filter P xs = []"
  by (induction xs) auto

lemma build_document_id_step:
  fixes sha1 :: "string \<Rightarrow> string"
  defines "I \<equiv> \<lambda>earlier b. (case find (\<lambda>g. base_id sha1 g = b) earlier of
      None \<Rightarrow> None
    | Some g \<Rightarrow> Some (length (filter (\<lambda>g. base_id sha1 g = b) earlier) - 1, path g))"
  shows "build_document_id sha1 f (I earlier, w) =
    (expected_id sha1 earlier f, I (earlier @ [f]),
     w\<lparr>document_id_collisions := document_id_collisions w @ expected_collision sha1 earlier f\<rparr>)"
proof (cases "find (\<lambda>g. base_id sha1 g = base_id sha1 f) earlier")
  case None
  then have e: "filter (\<lambda>g. base_id sha1 g = base_id sha1 f) earlier = []"
    by (simp add: find_filter_empty)
  have "(I earlier)(base_id sha1 f \<mapsto> (0, path f)) = I (earlier @ [f])"
    by (rule ext) (auto simp: I_def find_append_first None e split: option.splits)
  then show ?thesis
    using None e by (simp add: build_document_id_def I_def expected_id_def expected_collision_def)
next
  case (Some g)
  then have ne: "filter (\<lambda>g. base_id sha1 g = base_id sha1 f) earlier \<noteq> []"
    using find_filter_empty[of "\<lambda>g. base_id sha1 g = base_id sha1 f" earlier] by simp
  then have pos: "0 < length (filter (\<lambda>g. base_id sha1 g = base_id sha1 f) earlier)" by simp
  have "(I earlier)(base_id sha1 f \<mapsto>
       (length (filter (\<lambda>g. base_id sha1 g = base_id sha1 f) earlier) - 1 + 1, path g))
     = I (earlier @ [f])"
    using pos by (intro ext) (auto simp: I_def find_append_first Some split: option.splits)
  then show ?thesis
    using Some pos
    by (simp add: build_document_id_def I_def expected_id_def expected_collision_def
        log_document_id_collision_def Let_def)
qed

lemma build_ids_from:
  fixes sha1 :: "string \<Rightarrow> string"
  defines "I \<equiv> \<lambda>earlier b. (case find (\<lambda>g. base_id sha1 g = b) earlier of
      None \<Rightarrow> None
    | Some g \<Rightarrow> Some (length (filter (\<lambda>g. base_id sha1 g = b) earlier) - 1, path g))"
  shows "build_ids sha1 fs (I earlier, w) =
    (map (\<lambda>j. expected_id sha1 (earlier @ take j fs) (fs ! j)) [0..<length fs],
     I (earlier @ fs),
     w\<lparr>document_id_collisions := document_id_collisions w @
        concat (map (\<lambda>j. expected_collision sha1 (earlier @ take j fs) (fs ! j))
                  [0..<length fs])\<rparr>)"
proof (induction fs arbitrary: earlier w)
  case Nil
  show ?case by simp
next
  case (Cons f fs)
  have s: "build_document_id sha1 f (I earlier, w) =
    (expected_id sha1 earlier f, I (earlier @ [f]),
     w\<lparr>document_id_collisions := document_id_collisions w @ expected_collision sha1 earlier f\<rparr>)"
    unfolding I_def by (rule build_document_id_step)
  let ?w = "w\<lparr>document_id_collisions :=
      document_id_collisions w @ expected_collision sha1 earlier f\<rparr>"
  have "build_ids sha1 (f # fs) (I earlier, w) =
      (case build_ids sha1 fs (I (earlier @ [f]), ?w) of
         (is, st) \<Rightarrow> (expected_id sha1 earlier f # is, st))"
    by (simp add: s)
  then show ?case
    unfolding Cons.IH[of "earlier @ [f]" ?w] length_Cons upt_shift
    by (simp del: upt_Suc)
qed

lemma build_ids_fresh:
  "build_ids sha1 fs (Map.empty, w) =
    (map (\<lambda>j. expected_id sha1 (take j fs) (fs ! j)) [0..<length fs],
     (\<lambda>b. case find (\<lambda>g. base_id sha1 g = b) fs of
        None \<Rightarrow> None
      | Some g \<Rightarrow> Some (length (filter (\<lambda>g. base_id sha1 g = b) fs) - 1, path g)),
     w\<lparr>document_id_collisions := document_id_collisions w @
        concat (map (\<lambda>j. expected_collision sha1 (take j fs) (fs ! j)) [0..<length fs])\<rparr>)"
  using build_ids_from[of sha1 fs "[]" w] unfolding append_Nil by simp


lemma build_ids_nth:
  assumes "j < length fs"
  shows "fst (build_ids sha1 fs (Map.empty, w)) ! j = expected_id sha1 (take j fs) (fs ! j)"
  using assms by (simp add: build_ids_fresh)

lemma expected_id_first:
  assumes "\<forall>k<i. base_id sha1 (fs ! k) \<noteq> base_id sha1 (fs ! i)" "i < length fs"
  shows "expected_id sha1 (take i fs) (fs ! i) = base_id sha1 (fs ! i)"
proof -
  have "filter (\<lambda>g. base_id sha1 g = base_id sha1 (fs ! i)) (take i fs) = []"
    using assms by (auto simp: filter_empty_conv in_set_conv_nth)
  then show ?thesis by (simp add: expected_id_def)
qed

lemma expected_id_later:
  assumes "i < j" "j < length fs" "base_id sha1 (fs ! i) = base_id sha1 (fs ! j)"
  shows "expected_id sha1 (take j fs) (fs ! j) =
      base_id sha1 (fs ! j) @ ''::'' @
        show_nat (length (filter (\<lambda>g. base_id sha1 g = base_id sha1 (fs ! j)) (take j fs)))"
    and "1 \<le> length (filter (\<lambda>g. base_id sha1 g = base_id sha1 (fs ! j)) (take j fs))"
proof -
  have "fs ! i \<in> set (take j fs)" using assms(1,2) by (auto simp: in_set_conv_nth intro!: exI[of _ i])
  then have "fs ! i \<in> set (filter (\<lambda>g. base_id sha1 g = base_id sha1 (fs ! j)) (take j fs))"
    using assms(3) by simp
  then have ne: "filter (\<lambda>g. base_id sha1 g = base_id sha1 (fs ! j)) (take j fs) \<noteq> []"
    by (metis empty_iff list.set(1))
  then show "1 \<le> length (filter (\<lambda>g. base_id sha1 g = base_id sha1 (fs ! j)) (take j fs))"
    by (simp add: Suc_le_eq)
  with ne show "expected_id sha1 (take j fs) (fs ! j) =
      base_id sha1 (fs ! j) @ ''::'' @
        show_nat (length (filter (\<lambda>g. base_id sha1 g = base_id sha1 (fs ! j)) (take j fs)))"
    by (simp add: expected_id_def)
qed

lemma show_nat_1: "show_nat 1 = ''1''" "show_nat (Suc 0) = ''1''"
  by code_simp+

section \<open>Document ids\<close>

text \<open>
  C5. In one run of the document extractor over the archive documents \<open>fs\<close>, in the
  order of the directory walk and starting from an empty index, the id of each file is
  derived from its name alone: "/id/document/" followed by the hash of the file name,
  bare for the first file of that hash and followed by "::k" for the file that has \<open>k\<close>
  earlier files of the same hash, for which a collision (file name, path of the first
  file, path of this file) is logged. The ids do not depend on the state of the
  collector, so a second run over the same files in the same order gives the same ids.
  Two files of the same name get the bare id and the id with the suffix "::1", and one
  logged collision.
\<close>

theorem C5_document_ids:
  "fst (build_ids sha1 fs (Map.empty, w)) =
      map (\<lambda>j. expected_id sha1 (take j fs) (fs ! j)) [0..<length fs]
   \<and> document_id_collisions (snd (snd (build_ids sha1 fs (Map.empty, w)))) =
      document_id_collisions w @
        concat (map (\<lambda>j. expected_collision sha1 (take j fs) (fs ! j)) [0..<length fs])
   \<and> fst (build_ids sha1 fs (Map.empty, w)) = fst (build_ids sha1 fs (Map.empty, w2))
   \<and> fst (build_ids sha1 [\<lparr>path = p1, name = n\<rparr>, \<lparr>path = p2, name = n\<rparr>] (Map.empty, w)) =
      [''/id/document/'' @ sha1 n, ''/id/document/'' @ sha1 n @ ''::1'']
   \<and> document_id_collisions
        (snd (snd (build_ids sha1 [\<lparr>path = p1, name = n\<rparr>, \<lparr>path = p2, name = n\<rparr>]
           (Map.empty, w)))) =
      document_id_collisions w @ [(n, p1, p2)]"
proof -
  show ?thesis
    by (simp add: build_ids_fresh expected_id_def expected_collision_def base_id_def show_nat_1)
qed

theorem C5_document_ids_witness:
  "fst (build_ids rev [\<lparr>path = ''a/letter.md'', name = ''letter.md''\<rparr>,
                       \<lparr>path = ''b/note.md'', name = ''note.md''\<rparr>,
                       \<lparr>path = ''b/letter.md'', name = ''letter.md''\<rparr>,
                       \<lparr>path = ''c/letter.md'', name = ''letter.md''\<rparr>] (Map.empty, new_warnings))
     = [''/id/document/dm.rettel'', ''/id/document/dm.eton'',
        ''/id/document/dm.rettel::1'', ''/id/document/dm.rettel::2'']
   \<and> document_id_collisions
        (snd (snd (build_ids rev [\<lparr>path = ''a/letter.md'', name = ''letter.md''\<rparr>,
                       \<lparr>path = ''b/note.md'', name = ''note.md''\<rparr>,
                       \<lparr>path = ''b/letter.md'', name = ''letter.md''\<rparr>,
                       \<lparr>path = ''c/letter.md'', name = ''letter.md''\<rparr>] (Map.empty, new_warnings))))
     = [(''letter.md'', ''a/letter.md'', ''b/letter.md''),
        (''letter.md'', ''a/letter.md'', ''c/letter.md'')]"
proof -
  let ?fs = "[\<lparr>path = ''a/letter.md'', name = ''letter.md''\<rparr>,
              \<lparr>path = ''b/note.md'', name = ''note.md''\<rparr>,
              \<lparr>path = ''b/letter.md'', name = ''letter.md''\<rparr>,
              \<lparr>path = ''c/letter.md'', name = ''letter.md''\<rparr>]"
  have s: "show_nat (Suc (Suc 0)) = ''2''" by code_simp
  have l: "[0..<length ?fs] = [0, 1, 2, 3]" by (simp add: upt_rec)
  have e: "map (\<lambda>j. expected_id rev (take j ?fs) (?fs ! j)) [0..<length ?fs] =
      [''/id/document/dm.rettel'', ''/id/document/dm.eton'',
       ''/id/document/dm.rettel::1'', ''/id/document/dm.rettel::2'']"
    unfolding l by (simp add: expected_id_def base_id_def show_nat_1 s)
  have c: "document_id_collisions new_warnings @
      concat (map (\<lambda>j. expected_collision rev (take j ?fs) (?fs ! j)) [0..<length ?fs]) =
      [(''letter.md'', ''a/letter.md'', ''b/letter.md''),
       (''letter.md'', ''a/letter.md'', ''c/letter.md'')]"
    unfolding l by (simp add: expected_collision_def base_id_def new_warnings_def)
  note t = C5_document_ids[of rev ?fs new_warnings]
  from t have 1: "fst (build_ids rev ?fs (Map.empty, new_warnings)) =
      map (\<lambda>j. expected_id rev (take j ?fs) (?fs ! j)) [0..<length ?fs]"
    by (rule conjunct1)
  have 2: "document_id_collisions (snd (snd (build_ids rev ?fs (Map.empty, new_warnings)))) =
      document_id_collisions new_warnings @
        concat (map (\<lambda>j. expected_collision rev (take j ?fs) (?fs ! j)) [0..<length ?fs])"
    by (rule t[THEN conjunct2, THEN conjunct1])
  from 1 2 show ?thesis unfolding e c by (rule conjI)
qed

text \<open>
  C10. The event and micro-action extractors compute the owning document id as
  "/id/document/" followed by the hash of the file name, without the index of the
  document extractor. So for two archive documents of the same name, the first of that
  name at position \<open>i\<close> and a later one at position \<open>j\<close>, the document id carried by the
  assertions of file \<open>j\<close> is the id that the document extractor gave to file \<open>i\<close>, and
  differs from the suffixed id that it gave to file \<open>j\<close>.
\<close>

theorem C10_event_doc_id_is_bare_hash:
  assumes "i < j" and "j < length fs" and "name (fs ! i) = name (fs ! j)"
    and "\<forall>k<i. base_id sha1 (fs ! k) \<noteq> base_id sha1 (fs ! i)"
  shows "event_build_document_id_from_path sha1 (fs ! j) = ''/id/document/'' @ sha1 (name (fs ! j))
    \<and> micro_build_document_id_from_path sha1 (fs ! j) = ''/id/document/'' @ sha1 (name (fs ! j))
    \<and> event_build_document_id_from_path sha1 (fs ! j) = fst (build_ids sha1 fs (Map.empty, w)) ! i
    \<and> micro_build_document_id_from_path sha1 (fs ! j) = fst (build_ids sha1 fs (Map.empty, w)) ! i
    \<and> fst (build_ids sha1 fs (Map.empty, w)) ! j =
        ''/id/document/'' @ sha1 (name (fs ! j)) @ ''::'' @
          show_nat (length (filter (\<lambda>g. base_id sha1 g = base_id sha1 (fs ! j)) (take j fs)))
    \<and> event_build_document_id_from_path sha1 (fs ! j) \<noteq> fst (build_ids sha1 fs (Map.empty, w)) ! j
    \<and> micro_build_document_id_from_path sha1 (fs ! j) \<noteq> fst (build_ids sha1 fs (Map.empty, w)) ! j"
proof -
  from assms(1,2) have il: "i < length fs" by simp
  have b: "base_id sha1 (fs ! i) = base_id sha1 (fs ! j)" using assms(3) by (simp add: base_id_def)
  have di: "fst (build_ids sha1 fs (Map.empty, w)) ! i = base_id sha1 (fs ! j)"
    using build_ids_nth[OF il, of sha1 w] expected_id_first[OF assms(4) il] b by simp
  have dj: "fst (build_ids sha1 fs (Map.empty, w)) ! j =
      base_id sha1 (fs ! j) @ ''::'' @
        show_nat (length (filter (\<lambda>g. base_id sha1 g = base_id sha1 (fs ! j)) (take j fs)))"
    using build_ids_nth[OF assms(2), of sha1 w] expected_id_later(1)[OF assms(1,2) b] by simp
  have e: "event_build_document_id_from_path sha1 (fs ! j) = base_id sha1 (fs ! j)"
    "micro_build_document_id_from_path sha1 (fs ! j) = base_id sha1 (fs ! j)"
    by (simp_all add: event_build_document_id_from_path_def micro_build_document_id_from_path_def
        base_id_def)
  have ne: "base_id sha1 (fs ! j) \<noteq> fst (build_ids sha1 fs (Map.empty, w)) ! j"
    unfolding dj by simp
  show ?thesis
    using di dj e ne by (simp add: base_id_def)
qed

theorem C10_event_doc_id_is_bare_hash_witness:
  "(0::nat) < 1
   \<and> 1 < length [\<lparr>path = ''a/letter.md'', name = ''letter.md''\<rparr>,
                  \<lparr>path = ''b/letter.md'', name = ''letter.md''\<rparr>]
   \<and> fst (build_ids rev [\<lparr>path = ''a/letter.md'', name = ''letter.md''\<rparr>,
                          \<lparr>path = ''b/letter.md'', name = ''letter.md''\<rparr>] (Map.empty, new_warnings))
       = [''/id/document/dm.rettel'', ''/id/document/dm.rettel::1'']
   \<and> event_build_document_id_from_path rev \<lparr>path = ''b/letter.md'', name = ''letter.md''\<rparr>
       = ''/id/document/dm.rettel''
   \<and> micro_build_document_id_from_path rev \<lparr>path = ''b/letter.md'', name = ''letter.md''\<rparr>
       = ''/id/document/dm.rettel''
   \<and> event_build_document_id_from_path rev \<lparr>path = ''b/letter.md'', name = ''letter.md''\<rparr>
       \<noteq> fst (build_ids rev [\<lparr>path = ''a/letter.md'', name = ''letter.md''\<rparr>,
                          \<lparr>path = ''b/letter.md'', name = ''letter.md''\<rparr>] (Map.empty, new_warnings)) ! 1"
proof -
  let ?fs = "[\<lparr>path = ''a/letter.md'', name = ''letter.md''\<rparr>,
              \<lparr>path = ''b/letter.md'', name = ''letter.md''\<rparr>]"
  have h: "(0::nat) < 1" "1 < length ?fs" "name (?fs ! 0) = name (?fs ! 1)"
    "\<forall>k<0. base_id rev (?fs ! k) \<noteq> base_id rev (?fs ! 0)"
    by simp_all
  have v: "fst (build_ids rev ?fs (Map.empty, new_warnings))
       = [''/id/document/dm.rettel'', ''/id/document/dm.rettel::1'']"
    by (simp add: build_ids_fresh expected_id_def base_id_def show_nat_1)
  from C10_event_doc_id_is_bare_hash[OF h, of new_warnings] show ?thesis
    unfolding v by simp
qed

end
